theory Spec2Isabelle
  imports Main "HOL-Library.AList"
begin

section \<open>JavaScript values\<close>

text \<open>
  The records that travel through the extension are JSON objects. A value is one of the
  JSON shapes (plus \<open>undefined\<close>, which a missing property reads as); an object is the
  list of its properties in insertion order. Numbers are the integer counts and scores
  the extractors produce; \<open>NaN\<close> and fractions are outside this model.
\<close>

datatype jval =
    JUndefined
  | JNull
  | JBool bool
  | JNum int
  | JStr string
  | JArr "jval list"
  | JObj "(string \<times> jval) list"

type_synonym obj = "(string \<times> jval) list"

text \<open>JavaScript truthiness: what \<open>if (v)\<close>, \<open>!v\<close> and \<open>v || d\<close> test.\<close>

fun truthy :: "jval \<Rightarrow> bool" where
  "truthy JUndefined = False"
| "truthy JNull = False"
| "truthy (JBool b) = b"
| "truthy (JNum n) = (n \<noteq> 0)"
| "truthy (JStr s) = (s \<noteq> [])"
| "truthy (JArr xs) = True"
| "truthy (JObj ps) = True"

text \<open>\<open>o.k\<close> on an object: the property, or \<open>undefined\<close> when it is missing.\<close>

definition jget :: "obj \<Rightarrow> string \<Rightarrow> jval" where
  "jget ob k = (case map_of ob k of Some v \<Rightarrow> v | None \<Rightarrow> JUndefined)"


text \<open>The property names of an object.\<close>

definition fieldNames :: "obj \<Rightarrow> string set" where
  "fieldNames ob = fst ` set ob"

text \<open>
  \<open>{...a, ...b}\<close>: the properties of \<open>a\<close>, each overwritten in place by \<open>b\<close>'s value
  where \<open>b\<close> has it, then the properties only \<open>b\<close> has.
\<close>

definition spread :: "obj \<Rightarrow> obj \<Rightarrow> obj" where
  "spread a b = fold (\<lambda>k acc. AList.update k (jget b k) acc) (map fst b) a"

text \<open>\<open>(v || 0)\<close> read as a number; the ranking fields are numbers where present.\<close>

definition num_or0 :: "jval \<Rightarrow> int" where
  "num_or0 v = (case v of JNum n \<Rightarrow> n | _ \<Rightarrow> 0)"


definition num_ge :: "jval \<Rightarrow> int \<Rightarrow> bool" where
  "num_ge v n = (case v of JNum m \<Rightarrow> n \<le> m | _ \<Rightarrow> False)"

section \<open>Strings\<close>





section \<open>The classifier of the main-world interceptor\<close>













section \<open>The decode fallback of the main-world interceptor\<close>


text \<open>
  The variables the second \<open>fetch\<close> wrapper and the \<open>JSON.parse\<close> wrapper share.
  \<open>pendingRequests\<close> maps a request id to the URL and the time of the request.
\<close>

record interceptor =
  lastVoyagerUrl :: "string option"
  lastVoyagerTimestamp :: int
  pendingRequests :: "(string \<times> string \<times> int) list"



text \<open>Its \<open>finally\<close> block: entries older than ten seconds leave \<open>pendingRequests\<close>.\<close>

definition purgePending :: "int \<Rightarrow> interceptor \<Rightarrow> interceptor" where
  "purgePending now s =
     s\<lparr>pendingRequests :=
         filter (\<lambda>(requestId, url, timestamp). \<not> (now - timestamp > 10000))
           (pendingRequests s)\<rparr>"






section \<open>The consolidation store of the service worker\<close>

subsection \<open>Shared pieces\<close>

text \<open>
  A JavaScript \<open>Map\<close> from identity keys to records is the list of its entries in
  insertion order: \<open>map.get(k)\<close> is \<open>map_of m k\<close>, \<open>map.set(k, v)\<close> is
  \<open>AList.update k v m\<close> (the value is replaced where the key stands, a new key goes to
  the end), \<open>Array.from(map.values())\<close> is \<open>map snd m\<close>. Keys are compared as values;
  the identity keys are strings.

  Every \<open>new Date().toISOString()\<close> of one operation reads the same clock value \<open>now\<close>.
\<close>

text \<open>
  \<open>xs.forEach(x => { if (x.f) map.set(x.f, x) })\<close>: every record with a truthy
  property \<open>f\<close> is put into the map under it.
\<close>

definition putAll :: "string \<Rightarrow> obj list \<Rightarrow> (jval \<times> obj) list \<Rightarrow> (jval \<times> obj) list" where
  "putAll f xs m =
     fold (\<lambda>x acc. if truthy (jget x f) then AList.update (jget x f) x acc else acc) xs m"

text \<open>The same loop on a new \<open>Map\<close>: the index of the stored records by \<open>f\<close>.\<close>

definition indexBy :: "string \<Rightarrow> obj list \<Rightarrow> (jval \<times> obj) list" where
  "indexBy f xs = putAll f xs []"



text \<open>
  \<open>xs.sort((a, b) => score(b) - score(a))\<close>: \<open>Array.prototype.sort\<close> is stable, so this
  is the stable sort by falling score.
\<close>

definition sortDesc :: "(obj \<Rightarrow> int) \<Rightarrow> obj list \<Rightarrow> obj list" where
  "sortDesc score xs = sort_key (\<lambda>x. - score x) xs"

text \<open>\<open>xs.reduce((sum, x) => sum + f(x), 0)\<close>.\<close>

definition sumOver :: "(obj \<Rightarrow> int) \<Rightarrow> obj list \<Rightarrow> int" where
  "sumOver f xs = fold (\<lambda>x acc. acc + f x) xs 0"

text \<open>\<open>Math.round(total / n)\<close> for a positive count \<open>n\<close>: halves round up.\<close>

definition roundDiv :: "int \<Rightarrow> nat \<Rightarrow> int" where
  "roundDiv t n = (2 * t + int n) div (2 * int n)"


text \<open>
  The outcome of the two calls on \<open>chrome.storage.local\<close> an operation makes: the
  message of the error a call rejects with, if it does. \<open>getFromStorage\<close> and
  \<open>saveToStorage\<close> catch the rejection, so a failed read leaves \<open>existing.data\<close>
  undefined and a failed write leaves the store as it was.
\<close>

record io =
  get_error :: "string option"
  set_error :: "string option"

definition io_ok :: io where
  "io_ok = \<lparr>get_error = None, set_error = None\<rparr>"



subsection \<open>What the store holds\<close>

record feedStats =
  fs_avgEngagement :: int
  fs_avgLikes :: int
  fs_avgComments :: int
  fs_topHashtags :: "(string \<times> nat) list"
  fs_postTypes :: "(string \<times> nat) list"

record feedData =
  feed_posts :: "obj list"
  feed_topHits :: "obj list"
  feed_totalCount :: nat
  feed_lastUpdated :: string
  feed_stats :: feedStats

text \<open>
  Under \<open>linkedin_feed_posts\<close> there is nothing, a plain array of posts, or the object
  \<open>saveFeedPostsToStorage\<close> writes.
\<close>

datatype feedSlot = FeedAbsent | FeedArray "obj list" | FeedObject feedData

record commentStats =
  cs_avgLength :: int
  cs_avgLikes :: int
  cs_topCommentsCount :: nat

record commentsData =
  cm_comments :: "obj list"
  cm_topComments :: "obj list"
  cm_totalCount :: nat
  cm_lastUpdated :: string
  cm_stats :: commentStats

text \<open>
  The statistics of the own posts and of the post analytics, without
  \<open>avgEngagementRate\<close> (a floating-point mean printed with two decimals).
\<close>

record myPostsStats =
  ms_totalImpressions :: int
  ms_totalLikes :: int
  ms_totalComments :: int
  ms_avgImpressions :: int
  ms_avgLikes :: int
  ms_avgComments :: int

record myPostsData =
  mp_posts :: "obj list"
  mp_bestPost :: "obj option"
  mp_totalCount :: nat
  mp_lastUpdated :: string
  mp_stats :: myPostsStats

record followersData =
  fl_followers :: "obj list"
  fl_followerCount :: jval
  fl_history :: "obj list"
  fl_lastUpdated :: "string option"

record trendingData =
  tr_topics :: "obj list"
  tr_totalCount :: nat
  tr_lastUpdated :: string

record postAnalyticsStats =
  ps_totalImpressions :: int
  ps_totalReactions :: int
  ps_totalComments :: int
  ps_avgImpressions :: int
  ps_avgReactions :: int

record postAnalyticsData =
  pa_posts :: "obj list"
  pa_totalCount :: nat
  pa_lastUpdated :: string
  pa_stats :: postAnalyticsStats

text \<open>The keys of \<open>chrome.storage.local\<close> the consolidation operations use.\<close>

record store =
  st_feed :: feedSlot
  st_comments :: "commentsData option"
  st_myPosts :: "myPostsData option"
  st_followers :: "followersData option"
  st_trending :: "trendingData option"
  st_postAnalytics :: "postAnalyticsData option"
  st_capturedApis :: "obj list option"

definition emptyStore :: store where
  "emptyStore =
     \<lparr>st_feed = FeedAbsent, st_comments = None, st_myPosts = None, st_followers = None,
      st_trending = None, st_postAnalytics = None, st_capturedApis = None\<rparr>"


subsection \<open>Shared loops\<close>



text \<open>\<open>existing.data\<close> as an operation sees it: undefined when the read failed.\<close>

definition readSlot :: "io \<Rightarrow> 'a option \<Rightarrow> 'a option" where
  "readSlot i slot = (if get_error i = None then slot else None)"

subsection \<open>Feed posts\<close>










subsection \<open>Comments\<close>

text \<open>
  One round of the \<open>newComments.forEach\<close> loop: a comment is stored only when it has a
  truthy \<open>urn\<close> that the map does not hold yet.
\<close>

definition addComment :: "obj \<Rightarrow> (jval \<times> obj) list \<times> nat \<Rightarrow> (jval \<times> obj) list \<times> nat" where
  "addComment c acc =
     (case acc of (commentMap, newCount) \<Rightarrow>
        if truthy (jget c ''urn'') \<and> map_of commentMap (jget c ''urn'') = None
        then (AList.update (jget c ''urn'') c commentMap, newCount + 1)
        else (commentMap, newCount))"

definition commentLikes :: "obj \<Rightarrow> int" where
  "commentLikes c = num_or0 (jget c ''likes'')"

text \<open>\<open>c.text?.length || 0\<close>.\<close>

definition textLength :: "obj \<Rightarrow> int" where
  "textLength c =
     (case jget c ''text'' of
        JStr t \<Rightarrow> int (length t)
      | JArr xs \<Rightarrow> int (length xs)
      | _ \<Rightarrow> 0)"

text \<open>The object \<open>commentsData\<close>, built from the sorted and cut \<open>allComments\<close>.\<close>

definition commentsSummary :: "string \<Rightarrow> obj list \<Rightarrow> commentsData" where
  "commentsSummary now allComments =
     (let topComments = take 50 (filter (\<lambda>c. num_ge (jget c ''likes'') 5) allComments)
      in \<lparr>cm_comments = allComments, cm_topComments = topComments,
          cm_totalCount = length allComments, cm_lastUpdated = now,
          cm_stats =
            \<lparr>cs_avgLength =
               (if allComments \<noteq> []
                then roundDiv (sumOver textLength allComments) (length allComments) else 0),
             cs_avgLikes =
               (if allComments \<noteq> []
                then roundDiv (sumOver commentLikes allComments) (length allComments) else 0),
             cs_topCommentsCount = length topComments\<rparr>\<rparr>)"

definition computeCommentsData :: "string \<Rightarrow> obj list \<Rightarrow> obj list \<Rightarrow> commentsData \<times> nat" where
  "computeCommentsData now existingComments newComments =
     (let merged = fold addComment newComments (indexBy ''urn'' existingComments, 0);
          allComments = take 1000 (sortDesc commentLikes (map snd (fst merged)))
      in (commentsSummary now allComments, snd merged))"

definition saveCommentsToStorage :: "string \<Rightarrow> io \<Rightarrow> obj list option \<Rightarrow> store \<Rightarrow> obj \<times> store" where
  "saveCommentsToStorage now i newComments st =
     (case newComments of
        None \<Rightarrow> ([(''success'', JBool True), (''count'', JNum 0)], st)
      | Some [] \<Rightarrow> ([(''success'', JBool True), (''count'', JNum 0)], st)
      | Some (c # cs) \<Rightarrow>
          (let existingComments =
                 (case readSlot i (st_comments st) of None \<Rightarrow> [] | Some d \<Rightarrow> cm_comments d);
               r = computeCommentsData now existingComments (c # cs)
           in ([(''success'', JBool True), (''newCount'', JNum (int (snd r))),
                (''totalCount'', JNum (int (length (cm_comments (fst r)))))],
               if set_error i = None then st\<lparr>st_comments := Some (fst r)\<rparr> else st)))"


subsection \<open>Own posts\<close>






subsection \<open>Followers\<close>


definition defaultFollowers :: followersData where
  "defaultFollowers =
     \<lparr>fl_followers = [], fl_followerCount = JNum 0, fl_history = [], fl_lastUpdated = None\<rparr>"




subsection \<open>Trending topics\<close>

text \<open>One round of \<open>newTopics.forEach\<close>: the incoming topic, stamped, replaces the entry.\<close>

definition putTopic :: "string \<Rightarrow> obj \<Rightarrow> (jval \<times> obj) list \<Rightarrow> (jval \<times> obj) list" where
  "putTopic now t topicMap =
     (if truthy (jget t ''topic'')
      then AList.update (jget t ''topic'') (spread t [(''lastSeen'', JStr now)]) topicMap
      else topicMap)"

definition computeTrendingData :: "string \<Rightarrow> obj list \<Rightarrow> obj list \<Rightarrow> trendingData \<times> nat" where
  "computeTrendingData now existingTopics newTopics =
     (let allTopics = map snd (fold (putTopic now) newTopics (indexBy ''topic'' existingTopics))
      in (\<lparr>tr_topics = take 200 allTopics, tr_totalCount = length allTopics,
            tr_lastUpdated = now\<rparr>,
          length allTopics))"

definition saveTrendingToStorage :: "string \<Rightarrow> io \<Rightarrow> obj list option \<Rightarrow> store \<Rightarrow> obj \<times> store" where
  "saveTrendingToStorage now i newTopics st =
     (case newTopics of
        None \<Rightarrow> ([(''success'', JBool True), (''count'', JNum 0)], st)
      | Some [] \<Rightarrow> ([(''success'', JBool True), (''count'', JNum 0)], st)
      | Some (t # ts) \<Rightarrow>
          (let existingTopics =
                 (case readSlot i (st_trending st) of None \<Rightarrow> [] | Some d \<Rightarrow> tr_topics d);
               r = computeTrendingData now existingTopics (t # ts)
           in ([(''success'', JBool True), (''count'', JNum (int (snd r)))],
               if set_error i = None then st\<lparr>st_trending := Some (fst r)\<rparr> else st)))"

subsection \<open>Post analytics\<close>







subsection \<open>The log of captured API calls\<close>



section \<open>The message listener of the service worker\<close>





















section \<open>Notions the statements use\<close>




text \<open>The eight bounded collections of a store, each empty while its key is unset.\<close>

definition feedPostsOf :: "store \<Rightarrow> obj list" where
  "feedPostsOf st =
     (case st_feed st of FeedAbsent \<Rightarrow> [] | FeedArray xs \<Rightarrow> xs | FeedObject d \<Rightarrow> feed_posts d)"

definition storedComments :: "store \<Rightarrow> obj list" where
  "storedComments st = (case st_comments st of None \<Rightarrow> [] | Some d \<Rightarrow> cm_comments d)"

definition myPostsOf :: "store \<Rightarrow> obj list" where
  "myPostsOf st = (case st_myPosts st of None \<Rightarrow> [] | Some d \<Rightarrow> mp_posts d)"

definition postAnalyticsOf :: "store \<Rightarrow> obj list" where
  "postAnalyticsOf st = (case st_postAnalytics st of None \<Rightarrow> [] | Some d \<Rightarrow> pa_posts d)"

definition topicsOf :: "store \<Rightarrow> obj list" where
  "topicsOf st = (case st_trending st of None \<Rightarrow> [] | Some d \<Rightarrow> tr_topics d)"

definition capturedOf :: "store \<Rightarrow> obj list" where
  "capturedOf st = (case st_capturedApis st of None \<Rightarrow> [] | Some xs \<Rightarrow> xs)"

definition followersView :: "store \<Rightarrow> followersData" where
  "followersView st = (case st_followers st of None \<Rightarrow> defaultFollowers | Some d \<Rightarrow> d)"







definition latestCarrying :: "string \<Rightarrow> jval \<Rightarrow> string \<Rightarrow> obj list \<Rightarrow> obj option" where
  "latestCarrying f u k xs =
     (case filter (\<lambda>x. jget x f = u \<and> k \<in> fieldNames x) xs of
        [] \<Rightarrow> None
      | y # ys \<Rightarrow> Some (last (y # ys)))"








section \<open>Classification\<close>






section \<open>The decode fallback\<close>





section \<open>Capacity\<close>















lemma own_simps:
  "feedPostsOf (st\<lparr>st_feed := FeedObject d\<rparr>) = feed_posts d"
  "storedComments (st\<lparr>st_comments := Some c\<rparr>) = cm_comments c"
  "myPostsOf (st\<lparr>st_myPosts := Some m\<rparr>) = mp_posts m"
  "postAnalyticsOf (st\<lparr>st_postAnalytics := Some a\<rparr>) = pa_posts a"
  "topicsOf (st\<lparr>st_trending := Some t\<rparr>) = tr_topics t"
  "capturedOf (st\<lparr>st_capturedApis := Some xs\<rparr>) = xs"
  "followersView (st\<lparr>st_followers := Some f\<rparr>) = f"
  by (simp_all add: feedPostsOf_def storedComments_def myPostsOf_def postAnalyticsOf_def
      topicsOf_def capturedOf_def followersView_def)




















section \<open>Followers\<close>



section \<open>Comments\<close>

lemmas comments_eval =
  saveCommentsToStorage_def computeCommentsData_def commentsSummary_def emptyStore_def io_ok_def readSlot_def
  indexBy_def putAll_def addComment_def jget_def sortDesc_def commentLikes_def textLength_def
  num_or0_def num_ge_def roundDiv_def sumOver_def Let_def

lemma comments_first_call:
  "saveCommentsToStorage now1 io_ok (Some [[(''urn'', JStr ''c1''), (''likes'', JNum 3)]])
      emptyStore =
     ([(''success'', JBool True), (''newCount'', JNum 1), (''totalCount'', JNum 1)],
      emptyStore\<lparr>st_comments :=
        Some \<lparr>cm_comments = [[(''urn'', JStr ''c1''), (''likes'', JNum 3)]],
              cm_topComments = [], cm_totalCount = 1, cm_lastUpdated = now1,
              cm_stats = \<lparr>cs_avgLength = 0, cs_avgLikes = 3, cs_topCommentsCount = 0\<rparr>\<rparr>\<rparr>)"
  by (simp add: comments_eval)

lemma comments_second_call:
  "saveCommentsToStorage now2 io_ok
      (Some [[(''urn'', JStr ''c1''), (''likes'', JNum 9), (''text'', JStr ''hi'')]])
      (emptyStore\<lparr>st_comments :=
        Some \<lparr>cm_comments = [[(''urn'', JStr ''c1''), (''likes'', JNum 3)]],
              cm_topComments = [], cm_totalCount = 1, cm_lastUpdated = now1,
              cm_stats = \<lparr>cs_avgLength = 0, cs_avgLikes = 3, cs_topCommentsCount = 0\<rparr>\<rparr>\<rparr>) =
     ([(''success'', JBool True), (''newCount'', JNum 0), (''totalCount'', JNum 1)],
      emptyStore\<lparr>st_comments :=
        Some \<lparr>cm_comments = [[(''urn'', JStr ''c1''), (''likes'', JNum 3)]],
              cm_topComments = [], cm_totalCount = 1, cm_lastUpdated = now2,
              cm_stats = \<lparr>cs_avgLength = 0, cs_avgLikes = 3, cs_topCommentsCount = 0\<rparr>\<rparr>\<rparr>)"
  by (simp add: comments_eval)

text \<open>
  Claim C2, as amended. Submitting \<open>[{urn: "c1", likes: 3}]\<close> and then
  \<open>[{urn: "c1", likes: 9, text: "hi"}]\<close> to the comments save leaves exactly one stored
  record for \<open>c1\<close>, and it is the first one, \<open>{urn: "c1", likes: 3}\<close>: a comment whose
  \<open>urn\<close> is stored already is not merged. The first call reports \<open>newCount = 1\<close>, the
  second \<open>newCount = 0\<close>.
\<close>

theorem comments_first_record_kept:
  "fst (saveCommentsToStorage now1 io_ok (Some [[(''urn'', JStr ''c1''), (''likes'', JNum 3)]])
          emptyStore)
     = [(''success'', JBool True), (''newCount'', JNum 1), (''totalCount'', JNum 1)]
   \<and> fst (saveCommentsToStorage now2 io_ok
            (Some [[(''urn'', JStr ''c1''), (''likes'', JNum 9), (''text'', JStr ''hi'')]])
            (snd (saveCommentsToStorage now1 io_ok
                    (Some [[(''urn'', JStr ''c1''), (''likes'', JNum 3)]]) emptyStore)))
     = [(''success'', JBool True), (''newCount'', JNum 0), (''totalCount'', JNum 1)]
   \<and> storedComments
        (snd (saveCommentsToStorage now2 io_ok
            (Some [[(''urn'', JStr ''c1''), (''likes'', JNum 9), (''text'', JStr ''hi'')]])
            (snd (saveCommentsToStorage now1 io_ok
                    (Some [[(''urn'', JStr ''c1''), (''likes'', JNum 3)]]) emptyStore))))
     = [[(''urn'', JStr ''c1''), (''likes'', JNum 3)]]"
  unfolding comments_first_call fst_conv snd_conv comments_second_call own_simps
  by simp

text \<open>
  The claim as it stands fails: after the two calls the one stored record has 3 likes
  and no text.
\<close>

theorem comments_scenario_counterexample:
  "map (\<lambda>c. (jget c ''urn'', jget c ''likes'', jget c ''text''))
     (storedComments
        (snd (saveCommentsToStorage ''t2'' io_ok
            (Some [[(''urn'', JStr ''c1''), (''likes'', JNum 9), (''text'', JStr ''hi'')]])
            (snd (saveCommentsToStorage ''t1'' io_ok
                    (Some [[(''urn'', JStr ''c1''), (''likes'', JNum 3)]]) emptyStore)))))
     = [(JStr ''c1'', JNum 3, JUndefined)]"
  unfolding comments_first_call fst_conv snd_conv comments_second_call own_simps
  by (simp add: jget_def)

section \<open>Records and maps\<close>


















lemma update_absent: "k \<notin> fst ` set al \<Longrightarrow> AList.update k v al = al @ [(k, v)]"
  by (induction al) auto





















section \<open>Merging by identity key\<close>








section \<open>Feed posts\<close>


















section \<open>Merging: the examples\<close>







section \<open>Trending topics\<close>

lemma putTopics_fresh:
  assumes "distinct (map (\<lambda>t. jget t ''topic'') ts)"
    and "\<forall>t\<in>set ts. truthy (jget t ''topic'')"
    and "\<forall>t\<in>set ts. jget t ''topic'' \<notin> fst ` set m"
  shows "fold (putTopic now) ts m =
           m @ map (\<lambda>t. (jget t ''topic'', spread t [(''lastSeen'', JStr now)])) ts"
  using assms
proof (induction ts arbitrary: m)
  case Nil
  then show ?case by simp
next
  case (Cons t ts)
  have fresh: "jget t ''topic'' \<notin> fst ` set m" using Cons.prems(3) by simp
  have step: "putTopic now t m = m @ [(jget t ''topic'', spread t [(''lastSeen'', JStr now)])]"
    using Cons.prems(2) fresh by (simp add: putTopic_def update_absent)
  have "fold (putTopic now) ts (m @ [(jget t ''topic'', spread t [(''lastSeen'', JStr now)])]) =
      (m @ [(jget t ''topic'', spread t [(''lastSeen'', JStr now)])]) @
         map (\<lambda>t. (jget t ''topic'', spread t [(''lastSeen'', JStr now)])) ts"
    using Cons.prems by (intro Cons.IH) (auto simp: image_iff)
  then show ?case by (simp add: step)
qed

lemma topics201_distinct:
  "distinct (map (\<lambda>t. jget t ''topic'')
     (map (\<lambda>n. [(''topic'', JStr (replicate (Suc n) CHR ''x''))]) [0..<201]))"
proof -
  have "inj_on (\<lambda>n. JStr (replicate (Suc n) CHR ''x'')) (set [0..<201])"
    by (rule inj_onI) (metis jval.inject(3) length_replicate nat.inject)
  then have "distinct (map (\<lambda>n. JStr (replicate (Suc n) CHR ''x'')) [0..<201])"
    by (simp add: distinct_map)
  then show ?thesis by (simp add: comp_def jget_def)
qed

text \<open>
  Claim C6 fails for the trending topics: 201 distinct topics saved into the empty
  store leave 200 topics stored and a \<open>totalCount\<close> of 201, the length before the cut.
\<close>

theorem trending_totalCount_exceeds:
  "map_option (\<lambda>d. (tr_totalCount d, length (tr_topics d)))
     (st_trending (snd (saveTrendingToStorage ''t1'' io_ok
        (Some (map (\<lambda>n. [(''topic'', JStr (replicate (Suc n) CHR ''x''))]) [0..<201]))
        emptyStore)))
   = Some (201, 200)"
proof -
  let ?ts = "map (\<lambda>n. [(''topic'', JStr (replicate (Suc n) CHR ''x''))]) [0..<201]"
  have ne: "?ts \<noteq> []"
    by (simp add: upt_rec)
  have t: "\<forall>t\<in>set ?ts. truthy (jget t ''topic'')"
    by (simp add: jget_def)
  have m: "fold (putTopic ''t1'') ?ts (indexBy ''topic'' []) =
      map (\<lambda>t. (jget t ''topic'', spread t [(''lastSeen'', JStr ''t1'')])) ?ts"
    using putTopics_fresh[OF topics201_distinct t, of "[]" "''t1''"]
    by (simp add: indexBy_def putAll_def)
  have c: "fst (computeTrendingData ''t1'' [] ?ts) =
      \<lparr>tr_topics = take 200 (map snd (fold (putTopic ''t1'') ?ts (indexBy ''topic'' []))),
       tr_totalCount = length (map snd (fold (putTopic ''t1'') ?ts (indexBy ''topic'' []))),
       tr_lastUpdated = ''t1''\<rparr>"
    by (simp add: computeTrendingData_def Let_def)
  have w: "snd (saveTrendingToStorage ''t1'' io_ok (Some ?ts) emptyStore) =
      emptyStore\<lparr>st_trending := Some (fst (computeTrendingData ''t1'' [] ?ts))\<rparr>"
    using ne
    by (cases ?ts)
       (simp_all add: saveTrendingToStorage_def io_ok_def readSlot_def emptyStore_def Let_def)
  show ?thesis
    unfolding w c m by simp
qed

section \<open>Replies of the message listener\<close>

























section \<open>Submitting a batch again\<close>

subsection \<open>Runs of updates\<close>



lemma upds_keys:
  "fst ` set kvs \<subseteq> fst ` set al \<Longrightarrow>
     map fst (fold (\<lambda>kv acc. AList.update (fst kv) (snd kv) acc) kvs al) = map fst al"
proof (induction kvs arbitrary: al)
  case Nil
  then show ?case by simp
next
  case (Cons kv kvs)
  have in_al: "fst kv \<in> fst ` set al" using Cons.prems by simp
  have k: "map fst (AList.update (fst kv) (snd kv) al) = map fst al"
    using in_al by (simp add: update_keys)
  have "fst ` set kvs \<subseteq> fst ` set (AList.update (fst kv) (snd kv) al)"
    using Cons.prems by (auto simp: dom_update)
  from Cons.IH[OF this] show ?case by (simp add: k)
qed











subsection \<open>Comments\<close>



















subsection \<open>Trending topics\<close>












subsection \<open>Merging a batch a second time\<close>

















subsection \<open>My posts\<close>






subsection \<open>Feed posts and the generic log\<close>






subsection \<open>The examples\<close>








end
